theory Spec2Isabelle
  imports Main "HOL-Library.Word"
begin

section \<open>The custom-transaction interpreter of the alien consensus engine\<close>

text \<open>
  A shallow embedding of \<^verbatim>\<open>consensus/alien/custom_tx.go\<close>. Go's \<^verbatim>\<open>uint64\<close> is
  \<^typ>\<open>64 word\<close>, \<^verbatim>\<open>*big.Int\<close> is \<^typ>\<open>int\<close> (an \<^typ>\<open>int option\<close> where the code
  tests the pointer for nil), \<^verbatim>\<open>common.Address\<close> (20 bytes) is \<^typ>\<open>160 word\<close>,
  \<^verbatim>\<open>common.Hash\<close> (32 bytes) is \<^typ>\<open>256 word\<close>, a Go string is a \<^typ>\<open>string\<close> of
  bytes, a slice is a list and a Go map is a HOL map. A nil pointer that the code
  dereferences is a panic, written as \<open>Inl\<close> of the result.
\<close>

subsection \<open>Data model\<close>

type_synonym address = "160 word"
type_synonym hash = "256 word"
type_synonym uint64 = "64 word"
type_synonym byte = "8 word"

datatype panic = NilPointerDereference

text \<open>\<^verbatim>\<open>type RefundGas map[common.Address]*big.Int\<close>\<close>

type_synonym RefundGas = "address \<rightharpoonup> int"

record RefundPair =
  Sender :: address
  GasPrice :: int

text \<open>\<^verbatim>\<open>type RefundHash map[common.Hash]RefundPair\<close>\<close>

type_synonym RefundHash = "hash \<rightharpoonup> RefundPair"

record Vote =
  Voter :: address
  Candidate :: address
  Stake :: int

record Confirmation =
  Signer :: address
  BlockNumber :: int

record Declare =
  ProposalHash :: hash
  Declarer :: address
  Decision :: bool

record Proposal =
  Hash :: hash
  ReceivedNumber :: int
  CurrentDeposit :: int
  ValidationLoopCnt :: uint64
  ProposalType :: uint64
  Proposer :: address
  TargetAddress :: address
  MinerRewardPerThousand :: uint64
  SCHash :: hash
  SCBlockCountPerPeriod :: uint64
  SCBlockRewardPerPeriod :: uint64
  Declares :: "Declare list"
  MinVoterBalance :: uint64
  ProposalDeposit :: uint64
  SCRentFee :: uint64
  SCRentRate :: uint64
  SCRentLength :: uint64

record SCConfirmation =
  SCC_Hash :: hash
  SCC_Coinbase :: address
  SCC_Number :: uint64
  SCC_LoopInfo :: "string list"

record SCSetCoinbase =
  SCS_Hash :: hash
  SCS_Signer :: address
  SCS_Coinbase :: address

record GasCharging =
  GC_Target :: address
  GC_Volume :: uint64
  GC_Hash :: hash

record HeaderExtra =
  CurrentBlockConfirmations :: "Confirmation list"
  CurrentBlockVotes :: "Vote list"
  CurrentBlockProposals :: "Proposal list"
  CurrentBlockDeclares :: "Declare list"
  ModifyPredecessorVotes :: "Vote list"
  LoopStartTime :: uint64
  SignerQueue :: "address list"
  CandidateSigners :: "address list"
  SignerAdmin :: address
  PerBlockReward :: "int option"
  MinerRewardRatio :: uint64
  SignerMissing :: "address list"
  ConfirmedBlockNumber :: uint64
  SideChainConfirmations :: "SCConfirmation list"
  SideChainSetCoinbases :: "SCSetCoinbase list"
  SideChainNoticeConfirmed :: "SCConfirmation list"
  SideChainCharging :: "GasCharging list"

text \<open>
  What the code reads of a \<^verbatim>\<open>*types.Transaction\<close>: \<^verbatim>\<open>tx.Data()\<close>, \<^verbatim>\<open>tx.To()\<close>
  (nil for a contract creation), \<^verbatim>\<open>tx.Value()\<close>, \<^verbatim>\<open>tx.Hash()\<close>, \<^verbatim>\<open>tx.GasPrice()\<close>, and
  the result of \<^verbatim>\<open>types.Sender(types.NewEIP155Signer(tx.ChainId()), tx)\<close>, \<open>None\<close> when
  the recovery returns an error.
\<close>

record Transaction =
  tx_Data :: string
  tx_To :: "address option"
  tx_Value :: int
  tx_Hash :: hash
  tx_GasPrice :: int
  tx_Sender :: "address option"

text \<open>What the code reads of a \<^verbatim>\<open>*types.Header\<close>.\<close>

record Header =
  hdr_Number :: int
  hdr_ParentHash :: hash
  hdr_Extra :: "byte list"

text \<open>\<^verbatim>\<open>consensus.ChainReader\<close>: the one method the code calls; \<open>None\<close> is a nil header.\<close>

record ChainReader =
  GetHeaderByNumber :: "uint64 \<Rightarrow> Header option"

text \<open>\<^verbatim>\<open>*Snapshot\<close>: the two queries the code makes.\<close>

record Snapshot =
  isVoter :: "address \<Rightarrow> bool"
  isSideChainExist :: "hash \<Rightarrow> bool"

text \<open>\<^verbatim>\<open>*state.StateDB\<close>: the balances, read by \<^verbatim>\<open>GetBalance\<close> and written by \<^verbatim>\<open>SetBalance\<close>.\<close>

type_synonym StateDB = "address \<Rightarrow> int"

definition GetBalance :: "StateDB \<Rightarrow> address \<Rightarrow> int" where
  "GetBalance state addr = state addr"

definition SetBalance :: "StateDB \<Rightarrow> address \<Rightarrow> int \<Rightarrow> StateDB" where
  "SetBalance state addr amount = state(addr := amount)"

text \<open>
  The receiver \<^verbatim>\<open>a *Alien\<close>: \<^verbatim>\<open>a.config.MaxSignerCount\<close> and the method \<^verbatim>\<open>a.snapshot\<close>
  (defined in snapshot handling outside this file), which returns an error or a snapshot.
\<close>

record Alien =
  MaxSignerCount :: uint64
  snapshot :: "ChainReader \<Rightarrow> uint64 \<Rightarrow> hash \<Rightarrow> string + Snapshot"

text \<open>
  Declarations the file uses and does not contain, taken as parameters: the package
  variables \<^verbatim>\<open>proposalDeposit\<close>, \<^verbatim>\<open>minerRewardPerThousand\<close>, \<^verbatim>\<open>minVoterBalance\<close>, the
  constants \<^verbatim>\<open>extraVanity\<close> and \<^verbatim>\<open>extraSeal\<close>, and the codecs of other packages:
  \<^verbatim>\<open>(*common.Address).UnmarshalText\<close> and \<^verbatim>\<open>(*common.Hash).UnmarshalText\<close>, which
  update their receiver in place from the text (the code ignores their error, so the
  parameter maps the text and the old value to the new value),
  \<^verbatim>\<open>(*big.Int).UnmarshalText\<close> (\<open>None\<close> is an error) and \<^verbatim>\<open>rlp.DecodeBytes\<close> into an
  empty \<^verbatim>\<open>HeaderExtra\<close> (\<open>None\<close> is an error).
\<close>

record Pkg =
  proposalDeposit :: int
  minerRewardPerThousand :: uint64
  minVoterBalance :: int
  extraVanity :: nat
  extraSeal :: nat
  AddressUnmarshalText :: "string \<Rightarrow> address \<Rightarrow> address"
  HashUnmarshalText :: "string \<Rightarrow> hash \<Rightarrow> hash"
  BigUnmarshalText :: "string \<Rightarrow> int option"
  rlpDecodeBytes :: "byte list \<Rightarrow> HeaderExtra option"

subsection \<open>Constants\<close>

definition dposPrefix :: string where "dposPrefix = ''dpos''"
definition dposVersion :: string where "dposVersion = ''1''"
definition dposCategoryAdmin :: string where "dposCategoryAdmin = ''admin''"
definition dposAdminAddSigner :: string where "dposAdminAddSigner = ''adds''"
definition dposAdminDelSigner :: string where "dposAdminDelSigner = ''dels''"
definition dposAdminModifyAdmin :: string where "dposAdminModifyAdmin = ''modadmin''"
definition dposAdminModifyMinerReward :: string where "dposAdminModifyMinerReward = ''modreward''"
definition dposAdminModifyMinerRatio :: string where "dposAdminModifyMinerRatio = ''modratio''"

definition dposMinSplitLen :: nat where "dposMinSplitLen = 4"
definition posPrefix :: nat where "posPrefix = 0"
definition posVersion :: nat where "posVersion = 1"
definition posCategory :: nat where "posCategory = 2"
definition posEventProposal :: nat where "posEventProposal = 3"
definition posEventConfirmNumber :: nat where "posEventConfirmNumber = 4"
definition posAdminEvent :: nat where "posAdminEvent = 3"
definition posAdminEventBlockReward :: nat where "posAdminEventBlockReward = 4"
definition posAdminEventMinerRatio :: nat where "posAdminEventMinerRatio = 4"

definition proposalTypeCandidateAdd :: uint64 where "proposalTypeCandidateAdd = 1"
definition proposalTypeRentSideChain :: uint64 where "proposalTypeRentSideChain = 8"

definition maxValidationLoopCnt :: int where "maxValidationLoopCnt = 50000"
definition minValidationLoopCnt :: int where "minValidationLoopCnt = 4"
definition defaultValidationLoopCnt :: int where "defaultValidationLoopCnt = 10000"
definition maxProposalDeposit :: int where "maxProposalDeposit = 100000"
definition minSCRentFee :: int where "minSCRentFee = 100"
definition minSCRentLength :: int where "minSCRentLength = 850000"
definition defaultSCRentLength :: int where "defaultSCRentLength = minSCRentLength * 3"
definition maxSCRentLength :: int where "maxSCRentLength = defaultSCRentLength * 4"

subsection \<open>Library functions of Go\<close>

text \<open>\<^verbatim>\<open>(*big.Int).Uint64\<close>: the low 64 bits of the absolute value.\<close>

definition Uint64 :: "int \<Rightarrow> uint64" where
  "Uint64 x = word_of_int \<bar>x\<bar>"

text \<open>The conversion \<^verbatim>\<open>uint64(n)\<close> of a Go \<^verbatim>\<open>int\<close>: two's complement, modulo \<open>2 ^ 64\<close>.\<close>

definition uint64_of_int :: "int \<Rightarrow> uint64" where
  "uint64_of_int n = word_of_int n"

text \<open>The conversion \<^verbatim>\<open>int(u)\<close> of a \<^verbatim>\<open>uint64\<close> to Go's 64-bit \<^verbatim>\<open>int\<close>.\<close>

definition int_of_uint64 :: "uint64 \<Rightarrow> int" where
  "int_of_uint64 u = sint u"

text \<open>
  \<^verbatim>\<open>strings.Split(s, ":")\<close> for a separator of one byte: the pieces between the
  separators, one piece (the empty string) for the empty string. A byte that is not the
  separator is put in front of the first piece of the rest.
\<close>

fun consHead :: "char \<Rightarrow> string list \<Rightarrow> string list" where
  "consHead c (piece # pieces) = (c # piece) # pieces"
| "consHead c [] = [[c]]"

fun Split :: "string \<Rightarrow> char \<Rightarrow> string list" where
  "Split [] sep = [[]]"
| "Split (c # cs) sep =
     (if c = sep then [] # Split cs sep else consHead c (Split cs sep))"

text \<open>
  \<^verbatim>\<open>strconv.Atoi\<close> on a 64-bit platform: an optional sign, then one or more decimal
  digits and nothing else; an error (\<open>None\<close>) on any other text and on a value outside
  \<open>[-2^63, 2^63 - 1]\<close>.
\<close>

definition isDigit :: "char \<Rightarrow> bool" where
  "isDigit c = (48 \<le> (of_char c :: nat) \<and> (of_char c :: nat) \<le> 57)"

definition digitsValue :: "string \<Rightarrow> int" where
  "digitsValue ds = foldl (\<lambda>n c. n * 10 + (int (of_char c) - 48)) 0 ds"

definition parseDecimal :: "string \<Rightarrow> int option" where
  "parseDecimal s =
     (let neg = (s \<noteq> [] \<and> hd s = CHR ''-'');
          ds = (if s \<noteq> [] \<and> (hd s = CHR ''-'' \<or> hd s = CHR ''+'') then tl s else s)
      in if ds = [] \<or> \<not> list_all isDigit ds then None
         else Some (if neg then - digitsValue ds else digitsValue ds))"

definition Atoi :: "string \<Rightarrow> int option" where
  "Atoi s =
     (case parseDecimal s of
        None \<Rightarrow> None
      | Some n \<Rightarrow> if n < - (2 ^ 63) \<or> 2 ^ 63 - 1 < n then None else Some n)"

text \<open>\<^verbatim>\<open>(*big.Int).SetString(s, 10)\<close>: the same syntax, with no bound on the value.\<close>

definition SetString10 :: "string \<Rightarrow> int option" where
  "SetString10 s = parseDecimal s"

subsection \<open>Votes\<close>

text \<open>
  \<^verbatim>\<open>processEventVote\<close>: the stake is the voter's balance; \<^verbatim>\<open>*tx.To()\<close> panics on a nil
  recipient.
\<close>

definition processEventVote ::
  "Vote list \<Rightarrow> StateDB \<Rightarrow> Transaction \<Rightarrow> address \<Rightarrow> panic + Vote list" where
  "processEventVote currentBlockVotes state tx voter =
     (let stake = GetBalance state voter
      in case tx_To tx of
           None \<Rightarrow> Inl NilPointerDereference
         | Some to \<Rightarrow>
             Inr (currentBlockVotes @ [\<lparr>Voter = voter, Candidate = to, Stake = stake\<rparr>]))"

subsection \<open>Proposals\<close>

text \<open>The proposal that \<^verbatim>\<open>processEventProposal\<close> starts from, before it reads the fields.\<close>

definition newProposal :: "Pkg \<Rightarrow> Transaction \<Rightarrow> address \<Rightarrow> Proposal" where
  "newProposal pk tx proposer =
     \<lparr>Hash = tx_Hash tx,
      ReceivedNumber = 0,
      CurrentDeposit = proposalDeposit pk,
      ValidationLoopCnt = uint64_of_int defaultValidationLoopCnt,
      ProposalType = proposalTypeCandidateAdd,
      Proposer = proposer,
      TargetAddress = 0,
      MinerRewardPerThousand = minerRewardPerThousand pk,
      SCHash = 0,
      SCBlockCountPerPeriod = 1,
      SCBlockRewardPerPeriod = 0,
      Declares = [],
      MinVoterBalance = Uint64 (minVoterBalance pk div 10 ^ 18),
      ProposalDeposit = Uint64 (proposalDeposit pk div 10 ^ 18),
      SCRentFee = 0,
      SCRentRate = 1,
      SCRentLength = uint64_of_int defaultSCRentLength\<rparr>"

text \<open>
  The \<^verbatim>\<open>switch k\<close> of the loop body for one key \<open>k\<close> and value \<open>v\<close>: \<open>None\<close> where the
  code returns \<^verbatim>\<open>currentBlockProposals\<close>, otherwise the updated proposal. A key with no
  case leaves the proposal as it is.
\<close>

definition proposalField :: "Pkg \<Rightarrow> Proposal \<Rightarrow> string \<Rightarrow> string \<Rightarrow> Proposal option" where
  "proposalField pk proposal k v =
     (if k = ''vlcnt'' then
        (case Atoi v of
           None \<Rightarrow> None
         | Some validationLoopCnt \<Rightarrow>
             if validationLoopCnt < minValidationLoopCnt
                \<or> validationLoopCnt > maxValidationLoopCnt
             then None
             else Some (proposal\<lparr>ValidationLoopCnt := uint64_of_int validationLoopCnt\<rparr>))
      else if k = ''schash'' then
        Some (proposal\<lparr>SCHash := HashUnmarshalText pk v (SCHash proposal)\<rparr>)
      else if k = ''sccount'' then
        (case Atoi v of
           None \<Rightarrow> None
         | Some scBlockCountPerPeriod \<Rightarrow>
             Some (proposal\<lparr>SCBlockCountPerPeriod := uint64_of_int scBlockCountPerPeriod\<rparr>))
      else if k = ''screward'' then
        (case Atoi v of
           None \<Rightarrow> None
         | Some scBlockRewardPerPeriod \<Rightarrow>
             Some (proposal\<lparr>SCBlockRewardPerPeriod := uint64_of_int scBlockRewardPerPeriod\<rparr>))
      else if k = ''proposal_type'' then
        (case Atoi v of
           None \<Rightarrow> None
         | Some proposalType \<Rightarrow> Some (proposal\<lparr>ProposalType := uint64_of_int proposalType\<rparr>))
      else if k = ''candidate'' then
        Some (proposal\<lparr>TargetAddress := AddressUnmarshalText pk v (TargetAddress proposal)\<rparr>)
      else if k = ''mrpt'' then
        (case Atoi v of
           None \<Rightarrow> None
         | Some mrpt \<Rightarrow>
             if mrpt \<le> 0 \<or> mrpt > 1000 then None
             else Some (proposal\<lparr>MinerRewardPerThousand := uint64_of_int mrpt\<rparr>))
      else if k = ''mvb'' then
        (case Atoi v of
           None \<Rightarrow> None
         | Some mvb \<Rightarrow>
             if mvb \<le> 0 then None
             else Some (proposal\<lparr>MinVoterBalance := uint64_of_int mvb\<rparr>))
      else if k = ''mpd'' then
        (case Atoi v of
           None \<Rightarrow> None
         | Some mpd \<Rightarrow>
             if mpd \<le> 0 \<or> mpd > maxProposalDeposit then None
             else Some (proposal\<lparr>ProposalDeposit := uint64_of_int mpd\<rparr>))
      else if k = ''scrt'' then
        Some (proposal\<lparr>TargetAddress := AddressUnmarshalText pk v (TargetAddress proposal)\<rparr>)
      else if k = ''scrf'' then
        (case Atoi v of
           None \<Rightarrow> None
         | Some scrf \<Rightarrow>
             if scrf < minSCRentFee then None
             else Some (proposal\<lparr>SCRentFee := uint64_of_int scrf\<rparr>))
      else if k = ''scrr'' then
        (case Atoi v of
           None \<Rightarrow> None
         | Some scrr \<Rightarrow>
             if scrr \<le> 0 then None
             else Some (proposal\<lparr>SCRentRate := uint64_of_int scrr\<rparr>))
      else if k = ''scrl'' then
        (case Atoi v of
           None \<Rightarrow> None
         | Some scrl \<Rightarrow>
             if scrl < minSCRentLength \<or> scrl > maxSCRentLength then None
             else Some (proposal\<lparr>SCRentLength := uint64_of_int scrl\<rparr>))
      else Some proposal)"

text \<open>
  The loop \<^verbatim>\<open>for i := 0; i < len(txDataInfo[posEventProposal+1:])/2; i++\<close> over the
  tokens after the event name: it takes them two at a time, key then value, and a last
  token with no partner is never read.
\<close>

fun proposalFields :: "Pkg \<Rightarrow> Proposal \<Rightarrow> string list \<Rightarrow> Proposal option" where
  "proposalFields pk proposal (k # v # rest) =
     (case proposalField pk proposal k v of
        None \<Rightarrow> None
      | Some proposal' \<Rightarrow> proposalFields pk proposal' rest)"
| "proposalFields pk proposal rest = Some proposal"

text \<open>
  \<^verbatim>\<open>processEventProposal\<close>: the proposal list and the world state after the call (the
  code updates the state in place with \<^verbatim>\<open>SetBalance\<close>).
\<close>

definition processEventProposal ::
  "Pkg \<Rightarrow> Proposal list \<Rightarrow> string list \<Rightarrow> StateDB \<Rightarrow> Transaction \<Rightarrow> address \<Rightarrow> Snapshot
     \<Rightarrow> Proposal list \<times> StateDB" where
  "processEventProposal pk currentBlockProposals txDataInfo state tx proposer snap =
     (if length txDataInfo \<le> posEventProposal + 2 then (currentBlockProposals, state)
      else
        case proposalFields pk (newProposal pk tx proposer)
               (drop (posEventProposal + 1) txDataInfo) of
          None \<Rightarrow> (currentBlockProposals, state)
        | Some proposal \<Rightarrow>
            if ProposalType proposal = proposalTypeRentSideChain
               \<and> \<not> isSideChainExist snap (SCHash proposal)
            then (currentBlockProposals, state)
            else if ProposalType proposal = proposalTypeRentSideChain
                    \<and> TargetAddress proposal = 0
            then (currentBlockProposals, state)
            else
              (let currentProposalPay =
                     (if ProposalType proposal = proposalTypeRentSideChain
                      then proposalDeposit pk + uint (SCRentFee proposal) * 10 ^ 18
                      else proposalDeposit pk)
               in if GetBalance state proposer < currentProposalPay
                  then (currentBlockProposals, state)
                  else (currentBlockProposals @ [proposal],
                        SetBalance state proposer
                          (GetBalance state proposer - currentProposalPay))))"

text \<open>
  The validators in the words of the specification: a known numeric key fails when its
  value is not a base-10 integer or lies outside the key's range.
\<close>

definition fieldFails :: "string \<Rightarrow> string \<Rightarrow> bool" where
  "fieldFails k v =
     (case Atoi v of
        None \<Rightarrow>
          k \<in> set [''vlcnt'', ''sccount'', ''screward'', ''proposal_type'', ''mrpt'', ''mvb'',
                    ''mpd'', ''scrf'', ''scrr'', ''scrl'']
      | Some n \<Rightarrow>
          (k = ''vlcnt'' \<and> (n < minValidationLoopCnt \<or> maxValidationLoopCnt < n))
          \<or> (k = ''mrpt'' \<and> (n \<le> 0 \<or> 1000 < n))
          \<or> (k = ''mvb'' \<and> n \<le> 0)
          \<or> (k = ''mpd'' \<and> (n \<le> 0 \<or> maxProposalDeposit < n))
          \<or> (k = ''scrf'' \<and> n < minSCRentFee)
          \<or> (k = ''scrr'' \<and> n \<le> 0)
          \<or> (k = ''scrl'' \<and> (n < minSCRentLength \<or> maxSCRentLength < n)))"

text \<open>
  The total cost in the words of the specification: the fixed proposal deposit, plus the
  rent fee scaled by \<open>10^18\<close> for a rent-side-chain proposal.
\<close>

definition totalCost :: "Pkg \<Rightarrow> Proposal \<Rightarrow> int" where
  "totalCost pk proposal =
     proposalDeposit pk
       + (if ProposalType proposal = 8 then uint (SCRentFee proposal) * 10 ^ 18 else 0)"

subsection \<open>Confirmations\<close>

text \<open>
  \<^verbatim>\<open>decodeHeaderExtra\<close>: the switch has the default case only, \<^verbatim>\<open>rlp.DecodeBytes\<close>;
  \<open>None\<close> is an error.
\<close>

definition decodeHeaderExtra :: "Pkg \<Rightarrow> int \<Rightarrow> byte list \<Rightarrow> HeaderExtra option" where
  "decodeHeaderExtra pk number b = rlpDecodeBytes pk b"

text \<open>
  The loop over the signer queue of the confirmed header: at the first signer equal to
  the confirmer it appends the confirmation, stores the refund pair under the hash of the
  transaction and breaks.
\<close>

fun confirmLoop ::
  "address list \<Rightarrow> Confirmation list \<Rightarrow> RefundHash \<Rightarrow> Transaction \<Rightarrow> address \<Rightarrow> int
     \<Rightarrow> Confirmation list \<times> RefundHash" where
  "confirmLoop [] currentBlockConfirmations refundHash tx confirmer confirmedBlockNumber =
     (currentBlockConfirmations, refundHash)"
| "confirmLoop (s # queue) currentBlockConfirmations refundHash tx confirmer confirmedBlockNumber =
     (if s = confirmer
      then (currentBlockConfirmations
              @ [\<lparr>Signer = confirmer, BlockNumber = confirmedBlockNumber\<rparr>],
            refundHash(tx_Hash tx \<mapsto> \<lparr>Sender = confirmer, GasPrice = tx_GasPrice tx\<rparr>))
      else confirmLoop queue currentBlockConfirmations refundHash tx confirmer
             confirmedBlockNumber)"

text \<open>
  \<^verbatim>\<open>processEventConfirm\<close>. \<open>number\<close> is a \<^verbatim>\<open>uint64\<close>, so the two age tests are in
  unsigned arithmetic; the slice \<^verbatim>\<open>Extra[extraVanity:len(Extra)-extraSeal]\<close> is taken
  after the length test.
\<close>

definition processEventConfirm ::
  "Alien \<Rightarrow> Pkg \<Rightarrow> Confirmation list \<Rightarrow> ChainReader \<Rightarrow> string list \<Rightarrow> uint64 \<Rightarrow> Transaction
     \<Rightarrow> address \<Rightarrow> RefundHash \<Rightarrow> Confirmation list \<times> RefundHash" where
  "processEventConfirm a pk currentBlockConfirmations chain txDataInfo number tx confirmer
     refundHash =
     (if length txDataInfo > posEventConfirmNumber then
        case BigUnmarshalText pk (txDataInfo ! posEventConfirmNumber) of
          None \<Rightarrow> (currentBlockConfirmations, refundHash)
        | Some confirmedBlockNumber \<Rightarrow>
            if number - Uint64 confirmedBlockNumber > MaxSignerCount a
               \<or> number - Uint64 confirmedBlockNumber < 0
            then (currentBlockConfirmations, refundHash)
            else
              case GetHeaderByNumber chain (Uint64 confirmedBlockNumber) of
                None \<Rightarrow> (currentBlockConfirmations, refundHash)
              | Some confirmedHeader \<Rightarrow>
                  if extraVanity pk + extraSeal pk > length (hdr_Extra confirmedHeader)
                  then (currentBlockConfirmations, refundHash)
                  else
                    case decodeHeaderExtra pk confirmedBlockNumber
                           (drop (extraVanity pk)
                              (take (length (hdr_Extra confirmedHeader) - extraSeal pk)
                                 (hdr_Extra confirmedHeader))) of
                      None \<Rightarrow> (currentBlockConfirmations, refundHash)
                    | Some confirmedHeaderExtra \<Rightarrow>
                        confirmLoop (SignerQueue confirmedHeaderExtra)
                          currentBlockConfirmations refundHash tx confirmer
                          confirmedBlockNumber
      else (currentBlockConfirmations, refundHash))"

text \<open>
  The conditions of a valid confirmation in the words of the specification, for a
  confirmed number \<open>cbn\<close>, a historical header \<open>h\<close> and its decoded extra-data \<open>hx\<close>: the
  positional number parses to \<open>cbn\<close>, the age in unsigned arithmetic does not exceed
  MaxSignerCount, the header at that number is \<open>h\<close>, its extra-data region is long
  enough and decodes to \<open>hx\<close>, and the confirmer is in the signer queue of \<open>hx\<close>.
\<close>

definition confirmConditions ::
  "Alien \<Rightarrow> Pkg \<Rightarrow> ChainReader \<Rightarrow> string list \<Rightarrow> uint64 \<Rightarrow> address \<Rightarrow> int \<Rightarrow> Header
     \<Rightarrow> HeaderExtra \<Rightarrow> bool" where
  "confirmConditions a pk chain txDataInfo number confirmer cbn h hx =
     (4 < length txDataInfo
      \<and> BigUnmarshalText pk (txDataInfo ! 4) = Some cbn
      \<and> number - Uint64 cbn \<le> MaxSignerCount a
      \<and> GetHeaderByNumber chain (Uint64 cbn) = Some h
      \<and> extraVanity pk + extraSeal pk \<le> length (hdr_Extra h)
      \<and> decodeHeaderExtra pk cbn
            (drop (extraVanity pk) (take (length (hdr_Extra h) - extraSeal pk) (hdr_Extra h)))
          = Some hx
      \<and> confirmer \<in> set (SignerQueue hx))"

subsection \<open>Admin commands\<close>

text \<open>
  \<^verbatim>\<open>(common.Address).Str\<close>, a declaration of the package \<^verbatim>\<open>common\<close>:
  \<^verbatim>\<open>string(a[:])\<close>, the 20 bytes of the address as a string, most significant first.
\<close>

definition Str :: "address \<Rightarrow> string" where
  "Str a = map (\<lambda>i. char_of (unat (drop_bit (8 * (19 - i)) a))) [0..<20]"

text \<open>
  \<^verbatim>\<open>processAdminSigner\<close>. The loop keeps \<^verbatim>\<open>newSigners\<close> and \<^verbatim>\<open>repeated\<close>; \<open>n\<close> is
  \<^verbatim>\<open>len(signers)\<close>. The final test compares \<^verbatim>\<open>len(newSigners)\<close> with
  \<^verbatim>\<open>int(a.config.MaxSignerCount)\<close> in Go's signed \<^verbatim>\<open>int\<close>.
\<close>

definition signerStep ::
  "string \<Rightarrow> address \<Rightarrow> nat \<Rightarrow> address list \<times> bool \<Rightarrow> address \<Rightarrow> address list \<times> bool" where
  "signerStep op to n acc s =
     (let (newSigners, repeated) = acc
      in if Str s = Str to then
           if op = dposAdminDelSigner \<and> n > 1 then (newSigners, repeated)
           else (newSigners @ [s], if op = dposAdminAddSigner then True else repeated)
         else (newSigners @ [s], repeated))"

definition processAdminSigner :: "Alien \<Rightarrow> address list \<Rightarrow> string \<Rightarrow> address \<Rightarrow> address list" where
  "processAdminSigner a signers op to =
     (let (newSigners, repeated) = foldl (signerStep op to (length signers)) ([], False) signers
      in if \<not> repeated \<and> op = dposAdminAddSigner
            \<and> int (length newSigners) < int_of_uint64 (MaxSignerCount a)
         then newSigners @ [to]
         else newSigners)"

text \<open>\<^verbatim>\<open>processAdminPerBlockReward\<close>: \<open>None\<close> is the nil result.\<close>

definition processAdminPerBlockReward :: "string list \<Rightarrow> int option" where
  "processAdminPerBlockReward txDataInfo =
     (if length txDataInfo \<le> dposMinSplitLen then None
      else SetString10 (txDataInfo ! posAdminEventBlockReward))"

text \<open>\<^verbatim>\<open>processAdminMinerRatio\<close>: the \<^verbatim>\<open>int64\<close> result, \<open>-1\<close> on failure.\<close>

definition processAdminMinerRatio :: "string list \<Rightarrow> int" where
  "processAdminMinerRatio txDataInfo =
     (if length txDataInfo \<le> dposMinSplitLen then - 1
      else case Atoi (txDataInfo ! posAdminEventMinerRatio) of
             None \<Rightarrow> - 1
           | Some newMinerRatio \<Rightarrow> if newMinerRatio < 0 then - 1 else newMinerRatio)"

subsection \<open>Predecessor voters\<close>

definition processPredecessorVoter ::
  "Vote list \<Rightarrow> StateDB \<Rightarrow> Transaction \<Rightarrow> address \<Rightarrow> Snapshot \<Rightarrow> Vote list" where
  "processPredecessorVoter modifyPredecessorVotes state tx voter snap =
     (case tx_To tx of
        None \<Rightarrow> modifyPredecessorVotes
      | Some to \<Rightarrow>
          if tx_Value tx > 0 then
            (let votes1 =
                   (if isVoter snap voter
                    then modifyPredecessorVotes
                           @ [\<lparr>Voter = voter, Candidate = 0, Stake = GetBalance state voter\<rparr>]
                    else modifyPredecessorVotes)
             in if isVoter snap to
                then votes1 @ [\<lparr>Voter = to, Candidate = 0, Stake = GetBalance state to\<rparr>]
                else votes1)
          else modifyPredecessorVotes)"

subsection \<open>The block loop\<close>

text \<open>
  The branch of \<^verbatim>\<open>processCustomTx\<close> for the category \<^verbatim>\<open>admin\<close>, entered with at least
  \<^verbatim>\<open>dposMinSplitLen\<close> tokens. The guard is
  \<^verbatim>\<open>txSender.Str() == headerExtra.SignerAdmin.Str() && tx.To() != nil\<close>; every other
  case only logs a warning.
\<close>

definition processAdminTx ::
  "Alien \<Rightarrow> HeaderExtra \<Rightarrow> Transaction \<Rightarrow> address \<Rightarrow> string list \<Rightarrow> HeaderExtra" where
  "processAdminTx a headerExtra tx txSender txDataInfo =
     (case tx_To tx of
        None \<Rightarrow> headerExtra
      | Some to \<Rightarrow>
          if Str txSender = Str (SignerAdmin headerExtra) then
            if txDataInfo ! posAdminEvent = dposAdminAddSigner
               \<or> txDataInfo ! posAdminEvent = dposAdminDelSigner
            then headerExtra\<lparr>CandidateSigners :=
                   processAdminSigner a (CandidateSigners headerExtra)
                     (txDataInfo ! posAdminEvent) to\<rparr>
            else if txDataInfo ! posAdminEvent = dposAdminModifyAdmin
            then (if SignerAdmin headerExtra \<noteq> to
                  then headerExtra\<lparr>SignerAdmin := to\<rparr>
                  else headerExtra)
            else if txDataInfo ! posAdminEvent = dposAdminModifyMinerReward
            then (case processAdminPerBlockReward txDataInfo of
                    None \<Rightarrow> headerExtra
                  | Some newPerBlockReward \<Rightarrow>
                      headerExtra\<lparr>PerBlockReward := Some newPerBlockReward\<rparr>)
            else if txDataInfo ! posAdminEvent = dposAdminModifyMinerRatio
            then (let newMinerRatio = processAdminMinerRatio txDataInfo
                  in if newMinerRatio \<ge> 0
                     then headerExtra\<lparr>MinerRewardRatio := uint64_of_int newMinerRatio\<rparr>
                     else headerExtra)
            else headerExtra
          else headerExtra)"

text \<open>
  The command recognition of the loop body: the payload is split at \<^verbatim>\<open>:\<close> and only the
  category \<^verbatim>\<open>admin\<close> has a branch.
\<close>

definition processTxData ::
  "Alien \<Rightarrow> HeaderExtra \<Rightarrow> Transaction \<Rightarrow> address \<Rightarrow> HeaderExtra" where
  "processTxData a headerExtra tx txSender =
     (if length (tx_Data tx) \<ge> length dposPrefix then
        (let txDataInfo = Split (tx_Data tx) CHR '':''
         in if length txDataInfo \<ge> dposMinSplitLen then
              if txDataInfo ! posPrefix = dposPrefix then
                if txDataInfo ! posVersion = dposVersion then
                  if txDataInfo ! posCategory = dposCategoryAdmin
                  then processAdminTx a headerExtra tx txSender txDataInfo
                  else headerExtra
                else headerExtra
              else headerExtra
            else headerExtra)
      else headerExtra)"

text \<open>
  One iteration of the loop over \<^verbatim>\<open>txs\<close>. A transaction whose sender cannot be
  recovered is skipped. \<open>snap\<close> is \<open>Some\<close> exactly when \<^verbatim>\<open>number > 1\<close>, the case in
  which the code obtains the snapshot and calls \<^verbatim>\<open>processPredecessorVoter\<close>.
\<close>

definition processTx ::
  "Alien \<Rightarrow> StateDB \<Rightarrow> Snapshot option \<Rightarrow> HeaderExtra \<Rightarrow> Transaction \<Rightarrow> HeaderExtra" where
  "processTx a state snap headerExtra tx =
     (case tx_Sender tx of
        None \<Rightarrow> headerExtra
      | Some txSender \<Rightarrow>
          (let headerExtra1 = processTxData a headerExtra tx txSender
           in case snap of
                None \<Rightarrow> headerExtra1
              | Some sn \<Rightarrow>
                  headerExtra1\<lparr>ModifyPredecessorVotes :=
                    processPredecessorVoter (ModifyPredecessorVotes headerExtra1)
                      state tx txSender sn\<rparr>))"

text \<open>
  \<^verbatim>\<open>processCustomTx\<close>: \<open>Inl\<close> is the error of \<^verbatim>\<open>a.snapshot\<close> (returned with the
  accumulator as it was passed in and a nil map); otherwise the accumulator after the
  loop and \<^verbatim>\<open>refundGas\<close>, made empty at the start and never assigned to.
\<close>

definition processCustomTx ::
  "Alien \<Rightarrow> HeaderExtra \<Rightarrow> ChainReader \<Rightarrow> Header \<Rightarrow> StateDB \<Rightarrow> Transaction list
     \<Rightarrow> string + HeaderExtra \<times> RefundGas" where
  "processCustomTx a headerExtra chain header state txs =
     (let refundGas = Map.empty;
          number = Uint64 (hdr_Number header)
      in if number > 1 then
           case snapshot a chain (number - 1) (hdr_ParentHash header) of
             Inl err \<Rightarrow> Inl err
           | Inr snap \<Rightarrow> Inr (foldl (processTx a state (Some snap)) headerExtra txs, refundGas)
         else Inr (foldl (processTx a state None) headerExtra txs, refundGas))"

subsection \<open>Example inputs\<close>

text \<open>
  A small chain context for evaluating the functions: block 5, a snapshot with no voters
  and the side chain 7, the admin and only candidate signer 1, a deposit of 20.
\<close>

definition exampleSnapshot :: Snapshot where
  "exampleSnapshot = \<lparr>isVoter = (\<lambda>addr. False), isSideChainExist = (\<lambda>h. h = 7)\<rparr>"

definition exampleAlien :: Alien where
  "exampleAlien = \<lparr>MaxSignerCount = 21, snapshot = (\<lambda>chain n parent. Inr exampleSnapshot)\<rparr>"

definition exampleExtra :: HeaderExtra where
  "exampleExtra =
     \<lparr>CurrentBlockConfirmations = [], CurrentBlockVotes = [], CurrentBlockProposals = [],
      CurrentBlockDeclares = [], ModifyPredecessorVotes = [], LoopStartTime = 0,
      SignerQueue = [1], CandidateSigners = [1], SignerAdmin = 1, PerBlockReward = None,
      MinerRewardRatio = 0, SignerMissing = [], ConfirmedBlockNumber = 0,
      SideChainConfirmations = [], SideChainSetCoinbases = [],
      SideChainNoticeConfirmed = [], SideChainCharging = []\<rparr>"

definition exampleChain :: ChainReader where
  "exampleChain = \<lparr>GetHeaderByNumber = (\<lambda>n. None)\<rparr>"

definition exampleHeader :: Header where
  "exampleHeader = \<lparr>hdr_Number = 5, hdr_ParentHash = 0, hdr_Extra = []\<rparr>"

definition exampleState :: StateDB where
  "exampleState = (\<lambda>addr. if addr = 5 then 50 else 0)"

definition examplePkg :: Pkg where
  "examplePkg =
     \<lparr>proposalDeposit = 20, minerRewardPerThousand = 618, minVoterBalance = 100,
      extraVanity = 32, extraSeal = 65,
      AddressUnmarshalText = (\<lambda>text old. if text = ''0x09'' then 9 else old),
      HashUnmarshalText = (\<lambda>text old. if text = ''0x07'' then 7 else old),
      BigUnmarshalText = parseDecimal,
      rlpDecodeBytes = (\<lambda>bytes. if bytes = [1] then Some exampleExtra else None)\<rparr>"

definition proposalTx :: "string \<Rightarrow> Transaction" where
  "proposalTx payload = \<lparr>tx_Data = payload, tx_To = Some 5, tx_Value = 0, tx_Hash = 15,
             tx_GasPrice = 1, tx_Sender = Some 5\<rparr>"

text \<open>
  A chain whose block 3 has 32 bytes of vanity, the payload \<open>[1]\<close> (which the example
  codec decodes to the example accumulator, with the signer queue \<open>[1]\<close>) and 65 bytes of
  seal.
\<close>

definition sealedPayload :: "byte list" where
  "sealedPayload = replicate 32 0 @ [1] @ replicate 65 0"

definition confirmedHeader3 :: Header where
  "confirmedHeader3 = \<lparr>hdr_Number = 3, hdr_ParentHash = 0, hdr_Extra = sealedPayload\<rparr>"

definition confirmChain :: ChainReader where
  "confirmChain =
     \<lparr>GetHeaderByNumber = (\<lambda>n. if n = 3 then Some confirmedHeader3 else None)\<rparr>"

definition confirmTx :: "address \<Rightarrow> Transaction" where
  "confirmTx sender = \<lparr>tx_Data = ''dpos:1:event:confirm:3'', tx_To = Some sender, tx_Value = 0,
             tx_Hash = 16, tx_GasPrice = 2, tx_Sender = Some sender\<rparr>"

definition voteTx :: Transaction where
  "voteTx = \<lparr>tx_Data = ''dpos:1:event:vote'', tx_To = Some 9, tx_Value = 0, tx_Hash = 11,
             tx_GasPrice = 1, tx_Sender = Some 5\<rparr>"

definition addsTxOfStranger :: Transaction where
  "addsTxOfStranger = \<lparr>tx_Data = ''dpos:1:admin:adds'', tx_To = Some 9, tx_Value = 0,
             tx_Hash = 12, tx_GasPrice = 1, tx_Sender = Some 5\<rparr>"


definition modrewardTxWithoutRecipient :: Transaction where
  "modrewardTxWithoutRecipient = \<lparr>tx_Data = ''dpos:1:admin:modreward:8000'', tx_To = None,
             tx_Value = 0, tx_Hash = 14, tx_GasPrice = 1, tx_Sender = Some 1\<rparr>"


section \<open>Properties\<close>

subsection \<open>Addresses as text\<close>

text \<open>\<open>Str\<close> is injective: two addresses are textually equal exactly when they are equal.\<close>

lemma Str_nth: "i < 20 \<Longrightarrow> Str a ! i = char_of (unat (drop_bit (8 * (19 - i)) a))"
  unfolding Str_def by simp

lemma Str_inj: "Str a = Str b \<Longrightarrow> a = b"
proof (rule bit_word_eqI)
  fix n assume eq: "Str a = Str b" and n: "n < LENGTH(160)"
  define i where "i = 19 - n div 8"
  have i: "i < 20" "8 * (19 - i) = 8 * (n div 8)" using n by (auto simp: i_def)
  from eq have "Str a ! i = Str b ! i" by simp
  then have "char_of (unat (drop_bit (8 * (n div 8)) a)) = char_of (unat (drop_bit (8 * (n div 8)) b))"
    using i by (simp add: Str_nth)
  then have "(of_char (char_of (unat (drop_bit (8 * (n div 8)) a))) :: nat) = of_char (char_of (unat (drop_bit (8 * (n div 8)) b)))"
    by simp
  then have "take_bit 8 (unat (drop_bit (8 * (n div 8)) a)) = take_bit 8 (unat (drop_bit (8 * (n div 8)) b))"
    by (simp add: take_bit_eq_mod)
  then have "bit (take_bit 8 (unat (drop_bit (8 * (n div 8)) a))) (n mod 8) = bit (take_bit 8 (unat (drop_bit (8 * (n div 8)) b))) (n mod 8)"
    by simp
  then show "bit a n = bit b n"
    using n by (simp add: bit_take_bit_iff bit_unsigned_iff bit_drop_bit_eq) 
qed

lemma Str_eq_iff: "Str a = Str b \<longleftrightarrow> a = b"
  using Str_inj by auto

subsection \<open>The signer set\<close>














subsection \<open>The block loop\<close>




lemma processCustomTx_cases:
  assumes "processCustomTx a he chain header st txs = Inr (he1, rg1)"
  shows "\<exists>snap. he1 = foldl (processTx a st snap) he txs \<and> rg1 = Map.empty
           \<and> (\<forall>txs'. processCustomTx a he chain header st txs'
                  = Inr (foldl (processTx a st snap) he txs', Map.empty))"
  using assms
  by (auto simp: processCustomTx_def Let_def split: if_splits sum.splits)

lemma processTx_admin_frame:
  assumes "processTxData a he tx s = he"
  shows "tx_Sender tx = Some s \<Longrightarrow>
         CandidateSigners (processTx a st snap he tx) = CandidateSigners he
       \<and> SignerAdmin (processTx a st snap he tx) = SignerAdmin he
       \<and> PerBlockReward (processTx a st snap he tx) = PerBlockReward he
       \<and> MinerRewardRatio (processTx a st snap he tx) = MinerRewardRatio he"
  using assms by (simp add: processTx_def Let_def split: option.split)

lemma processTxData_not_admin:
  "Str s \<noteq> Str (SignerAdmin he) \<Longrightarrow> processTxData a he tx s = he"
  by (simp add: processTxData_def processAdminTx_def Let_def split: option.split)

lemma processTxData_nil_to:
  "tx_To tx = None \<Longrightarrow> processTxData a he tx s = he"
  by (simp add: processTxData_def processAdminTx_def Let_def)

lemma processCustomTx_empty_block:
  "processCustomTx exampleAlien exampleExtra exampleChain exampleHeader exampleState []
     = Inr (exampleExtra, Map.empty)"
  by (simp add: processCustomTx_def exampleAlien_def exampleHeader_def Uint64_def)

lemma processCustomTx_vote_block:
  "processCustomTx exampleAlien exampleExtra exampleChain exampleHeader exampleState [voteTx]
     = Inr (exampleExtra, Map.empty)"
  by (simp add: processCustomTx_def processTx_def processTxData_def
      processPredecessorVoter_def voteTx_def exampleAlien_def exampleHeader_def Uint64_def
      dposPrefix_def dposVersion_def dposCategoryAdmin_def dposMinSplitLen_def
      posPrefix_def posVersion_def posCategory_def)





text \<open>
  C9. Whenever processCustomTx returns without error, the RefundGas map it returns has
  no entry.
\<close>

theorem processCustomTx_no_refund:
  assumes "processCustomTx a he chain header st txs = Inr (he1, refundGas)"
  shows "dom refundGas = {}"
  using processCustomTx_cases [OF assms] by auto

theorem processCustomTx_no_refund_witness:
  "dom (snd (projr (processCustomTx exampleAlien exampleExtra exampleChain exampleHeader
                      exampleState [voteTx]))) = {}"
  using processCustomTx_no_refund [OF processCustomTx_vote_block]
  by (simp add: processCustomTx_vote_block)

text \<open>
  C5. Let the accumulator being built be the one processCustomTx returns for the
  transactions before \<open>tx\<close>. If the recovered sender of \<open>tx\<close> is not textually equal to
  the SignerAdmin of that accumulator, then processing \<open>tx\<close> as well (whatever command it
  carries, so every admin command) leaves CandidateSigners, SignerAdmin, PerBlockReward
  and MinerRewardRatio as they were.
\<close>

theorem admin_command_from_other_sender:
  assumes "processCustomTx a he chain header st txs = Inr (he1, rg1)"
    and "tx_Sender tx = Some sender"
    and "Str sender \<noteq> Str (SignerAdmin he1)"
  shows "\<exists>he2 rg2. processCustomTx a he chain header st (txs @ [tx]) = Inr (he2, rg2)
           \<and> CandidateSigners he2 = CandidateSigners he1
           \<and> SignerAdmin he2 = SignerAdmin he1
           \<and> PerBlockReward he2 = PerBlockReward he1
           \<and> MinerRewardRatio he2 = MinerRewardRatio he1"
proof -
  from processCustomTx_cases [OF assms(1)] obtain snap
    where he1: "he1 = foldl (processTx a st snap) he txs"
      and all: "\<And>txs'. processCustomTx a he chain header st txs'
                  = Inr (foldl (processTx a st snap) he txs', Map.empty)" by blast
  have *: "processCustomTx a he chain header st (txs @ [tx]) = Inr (processTx a st snap he1 tx, Map.empty)"
    by (simp add: all he1)
  have "processTxData a he1 tx sender = he1"
    using assms(3) by (rule processTxData_not_admin)
  then have "CandidateSigners (processTx a st snap he1 tx) = CandidateSigners he1
       \<and> SignerAdmin (processTx a st snap he1 tx) = SignerAdmin he1
       \<and> PerBlockReward (processTx a st snap he1 tx) = PerBlockReward he1
       \<and> MinerRewardRatio (processTx a st snap he1 tx) = MinerRewardRatio he1"
    using assms(2) by (rule processTx_admin_frame)
  with * show ?thesis by blast
qed

theorem admin_command_from_other_sender_witness:
  "\<exists>he2 rg2.
     processCustomTx exampleAlien exampleExtra exampleChain exampleHeader exampleState
       ([] @ [addsTxOfStranger]) = Inr (he2, rg2)
     \<and> CandidateSigners he2 = [1] \<and> SignerAdmin he2 = 1
     \<and> PerBlockReward he2 = None \<and> MinerRewardRatio he2 = 0"
proof -
  have sender: "tx_Sender addsTxOfStranger = Some 5"
    by (simp add: addsTxOfStranger_def)
  have other: "Str 5 \<noteq> Str (SignerAdmin exampleExtra)"
    by (simp add: Str_eq_iff exampleExtra_def)
  from admin_command_from_other_sender [OF processCustomTx_empty_block sender other]
  show ?thesis by (simp add: exampleExtra_def)
qed

text \<open>
  C10. If \<open>tx\<close> has no recipient (\<^verbatim>\<open>tx.To()\<close> is nil), then processing it after any
  transactions leaves CandidateSigners, SignerAdmin, PerBlockReward and MinerRewardRatio
  as they were, whoever the sender is and whatever command it carries (so also
  \<^verbatim>\<open>modreward\<close> and \<^verbatim>\<open>modratio\<close> sent by the SignerAdmin).
\<close>

theorem admin_command_without_recipient:
  assumes "processCustomTx a he chain header st txs = Inr (he1, rg1)"
    and "tx_To tx = None"
  shows "\<exists>he2 rg2. processCustomTx a he chain header st (txs @ [tx]) = Inr (he2, rg2)
           \<and> CandidateSigners he2 = CandidateSigners he1
           \<and> SignerAdmin he2 = SignerAdmin he1
           \<and> PerBlockReward he2 = PerBlockReward he1
           \<and> MinerRewardRatio he2 = MinerRewardRatio he1"
proof -
  from processCustomTx_cases [OF assms(1)] obtain snap
    where he1: "he1 = foldl (processTx a st snap) he txs"
      and all: "\<And>txs'. processCustomTx a he chain header st txs'
                  = Inr (foldl (processTx a st snap) he txs', Map.empty)" by blast
  have *: "processCustomTx a he chain header st (txs @ [tx]) = Inr (processTx a st snap he1 tx, Map.empty)"
    by (simp add: all he1)
  have "CandidateSigners (processTx a st snap he1 tx) = CandidateSigners he1
       \<and> SignerAdmin (processTx a st snap he1 tx) = SignerAdmin he1
       \<and> PerBlockReward (processTx a st snap he1 tx) = PerBlockReward he1
       \<and> MinerRewardRatio (processTx a st snap he1 tx) = MinerRewardRatio he1"
    using assms(2) by (simp add: processTx_def Let_def processTxData_nil_to split: option.split)
  with * show ?thesis by blast
qed

theorem admin_command_without_recipient_witness:
  "\<exists>he2 rg2.
     processCustomTx exampleAlien exampleExtra exampleChain exampleHeader exampleState
       ([] @ [modrewardTxWithoutRecipient]) = Inr (he2, rg2)
     \<and> CandidateSigners he2 = [1] \<and> SignerAdmin he2 = 1
     \<and> PerBlockReward he2 = None \<and> MinerRewardRatio he2 = 0"
proof -
  have nil: "tx_To modrewardTxWithoutRecipient = None"
    by (simp add: modrewardTxWithoutRecipient_def)
  from admin_command_without_recipient [OF processCustomTx_empty_block nil]
  show ?thesis by (simp add: exampleExtra_def)
qed

subsection \<open>Proposals\<close>

text \<open>The switch rejects a key and value exactly when the validator of the key fails.\<close>

lemma proposalField_None_iff:
  "proposalField pk proposal k v = None \<longleftrightarrow> fieldFails k v"
  by (cases "Atoi v") (auto simp: proposalField_def fieldFails_def)

lemma proposalFields_None_iff:
  "proposalFields pk proposal kvs = None
     \<longleftrightarrow> (\<exists>i. 2 * i + 1 < length kvs \<and> fieldFails (kvs ! (2 * i)) (kvs ! (2 * i + 1)))"
proof (induction pk proposal kvs rule: proposalFields.induct)
  case (1 pk proposal k v rest)
  show ?case
  proof (cases "proposalField pk proposal k v")
    case None
    then have "fieldFails k v" by (simp add: proposalField_None_iff)
    then have "2 * 0 + 1 < length (k # v # rest)
               \<and> fieldFails ((k # v # rest) ! (2 * 0)) ((k # v # rest) ! (2 * 0 + 1))"
      by simp
    then have "\<exists>i. 2 * i + 1 < length (k # v # rest)
               \<and> fieldFails ((k # v # rest) ! (2 * i)) ((k # v # rest) ! (2 * i + 1))"
      by (rule exI)
    with None show ?thesis by simp
  next
    case (Some p)
    then have ok: "\<not> fieldFails k v"
      using proposalField_None_iff [of pk proposal k v] by simp
    have "(\<exists>i. 2 * i + 1 < length (k # v # rest)
               \<and> fieldFails ((k # v # rest) ! (2 * i)) ((k # v # rest) ! (2 * i + 1)))
          \<longleftrightarrow> (\<exists>i. 2 * i + 1 < length rest \<and> fieldFails (rest ! (2 * i)) (rest ! (2 * i + 1)))"
      (is "?L \<longleftrightarrow> ?R")
    proof
      assume ?L
      then obtain i where i: "2 * i + 1 < length (k # v # rest)"
        "fieldFails ((k # v # rest) ! (2 * i)) ((k # v # rest) ! (2 * i + 1))" by blast
      with ok have "i \<noteq> 0" by (cases i) auto
      then obtain j where j: "i = Suc j" by (cases i) auto
      with i show ?R by (intro exI [of _ j]) simp
    next
      assume ?R
      then obtain j where "2 * j + 1 < length rest"
        "fieldFails (rest ! (2 * j)) (rest ! (2 * j + 1))" by blast
      then show ?L by (intro exI [of _ "Suc j"]) simp
    qed
    with Some "1.IH" [OF Some] show ?thesis by simp
  qed
qed simp_all

lemma Atoi_1: "Atoi ''1'' = Some 1"
  by (simp add: Atoi_def parseDecimal_def digitsValue_def isDigit_def)

lemma Atoi_1500: "Atoi ''1500'' = Some 1500"
  by (simp add: Atoi_def parseDecimal_def digitsValue_def isDigit_def)

lemma proposalField_keeps:
  "proposalField pk p k v = Some p' \<Longrightarrow>
     CurrentDeposit p' = CurrentDeposit p \<and> Proposer p' = Proposer p \<and> Hash p' = Hash p"
  by (auto simp: proposalField_def split: if_splits option.splits)

lemma proposalFields_keeps:
  "proposalFields pk p kvs = Some p' \<Longrightarrow>
     CurrentDeposit p' = CurrentDeposit p \<and> Proposer p' = Proposer p \<and> Hash p' = Hash p"
proof (induction pk p kvs rule: proposalFields.induct)
  case (1 pk proposal k v rest)
  then obtain q where q: "proposalField pk proposal k v = Some q"
    and r: "proposalFields pk q rest = Some p'"
    by (auto split: option.splits)
  from "1.IH" [OF q r] proposalField_keeps [OF q] show ?case by simp
qed simp_all

lemma processEventProposal_built:
  assumes "5 < length txDataInfo"
    and "proposalFields pk (newProposal pk tx proposer) (drop 4 txDataInfo) = Some proposal"
  shows "processEventProposal pk props txDataInfo state tx proposer snap =
          (if (ProposalType proposal = 8 \<longrightarrow>
                 isSideChainExist snap (SCHash proposal) \<and> TargetAddress proposal \<noteq> 0)
              \<and> totalCost pk proposal \<le> GetBalance state proposer
           then (props @ [proposal],
                 state(proposer := GetBalance state proposer - totalCost pk proposal))
           else (props, state))"
  using assms
  by (simp add: processEventProposal_def posEventProposal_def proposalTypeRentSideChain_def
      totalCost_def SetBalance_def Let_def not_less)

lemma example_fields:
  "proposalFields examplePkg (newProposal examplePkg tx 5) [''proposal_type'', ''1'']
     = Some ((newProposal examplePkg tx 5)\<lparr>ProposalType := 1\<rparr>)"
  by (simp add: proposalField_def Atoi_1 uint64_of_int_def)


text \<open>
  C1. If any key of a proposal command (the token at position \<open>4 + 2 i\<close>, with its value
  at position \<open>5 + 2 i\<close>) is one of vlcnt, sccount, screward, proposal_type, mrpt, mvb, mpd,
  scrf, scrr, scrl and its value fails to parse or lies outside the key's range, then
  processEventProposal returns the proposal list it was given and the world state it was
  given: no proposal is recorded and no balance changes.
\<close>

theorem invalid_field_rejects_proposal:
  assumes "5 + 2 * i < length txDataInfo"
    and "fieldFails (txDataInfo ! (4 + 2 * i)) (txDataInfo ! (5 + 2 * i))"
  shows "processEventProposal pk currentBlockProposals txDataInfo state tx proposer snap
           = (currentBlockProposals, state)"
proof -
  let ?kvs = "drop (posEventProposal + 1) txDataInfo"
  have "2 * i + 1 < length ?kvs" using assms(1) by (simp add: posEventProposal_def)
  moreover have "fieldFails (?kvs ! (2 * i)) (?kvs ! (2 * i + 1))"
    using assms by (simp add: posEventProposal_def add.commute)
  ultimately have "proposalFields pk (newProposal pk tx proposer) ?kvs = None"
    unfolding proposalFields_None_iff by blast
  then show ?thesis by (simp add: processEventProposal_def)
qed

theorem invalid_field_rejects_proposal_witness:
  "processEventProposal examplePkg [] (Split ''dpos:1:event:proposal:mrpt:1500'' CHR '':'')
     exampleState (proposalTx ''dpos:1:event:proposal:mrpt:1500'') 5 exampleSnapshot
   = ([], exampleState)"
  using invalid_field_rejects_proposal
    [where i = 0 and txDataInfo = "Split ''dpos:1:event:proposal:mrpt:1500'' CHR '':''"
       and pk = examplePkg and currentBlockProposals = "[]" and state = exampleState
       and tx = "proposalTx ''dpos:1:event:proposal:mrpt:1500''" and proposer = 5
       and snap = exampleSnapshot]
  by (simp add: fieldFails_def Atoi_1500)


text \<open>
  The claim C2 as written fails for a proposal command with no key/value pair: the
  command \<^verbatim>\<open>dpos:1:event:proposal\<close> has no field that fails, the proposer's balance 50
  covers the deposit 20, and no proposal is appended.
\<close>

theorem proposal_without_fields_is_dropped:
  "Split (tx_Data (proposalTx ''dpos:1:event:proposal'')) CHR '':''
     = [''dpos'', ''1'', ''event'', ''proposal'']
   \<and> processEventProposal examplePkg []
         (Split (tx_Data (proposalTx ''dpos:1:event:proposal'')) CHR '':'')
         exampleState (proposalTx ''dpos:1:event:proposal'') 5 exampleSnapshot
       = ([], exampleState)
   \<and> proposalDeposit examplePkg \<le> GetBalance exampleState 5"
  by (simp add: proposalTx_def processEventProposal_def posEventProposal_def examplePkg_def
      GetBalance_def exampleState_def)


text \<open>
  C2 (amended). For a proposal command of more than five tokens (at least one key/value
  pair) whose fields all validate, the loop builds a proposal with the fixed deposit as
  CurrentDeposit; its total cost is the fixed deposit plus, for type 8, the rent fee times
  \<open>10^18\<close>. The proposal is appended, and the proposer's balance decreased by exactly the
  total cost, if and only if the balance is at least the total cost and, for type 8, the
  side chain is registered in the snapshot and the target address is not zero; otherwise
  the list and the state are returned unchanged. After an accepted proposal the balance is
  not negative.
\<close>

theorem valid_proposal_pays_total_cost:
  assumes "5 < length txDataInfo"
    and "\<forall>i. 5 + 2 * i < length txDataInfo \<longrightarrow>
           \<not> fieldFails (txDataInfo ! (4 + 2 * i)) (txDataInfo ! (5 + 2 * i))"
  shows "\<exists>proposal.
           proposalFields pk (newProposal pk tx proposer) (drop 4 txDataInfo) = Some proposal
         \<and> CurrentDeposit proposal = proposalDeposit pk
         \<and> Proposer proposal = proposer
         \<and> Hash proposal = tx_Hash tx
         \<and> processEventProposal pk props txDataInfo state tx proposer snap =
             (if (ProposalType proposal = 8 \<longrightarrow>
                    isSideChainExist snap (SCHash proposal) \<and> TargetAddress proposal \<noteq> 0)
                 \<and> totalCost pk proposal \<le> GetBalance state proposer
              then (props @ [proposal],
                    state(proposer := GetBalance state proposer - totalCost pk proposal))
              else (props, state))
         \<and> (fst (processEventProposal pk props txDataInfo state tx proposer snap) \<noteq> props
              \<longrightarrow> 0 \<le> GetBalance
                         (snd (processEventProposal pk props txDataInfo state tx proposer snap))
                         proposer)"
proof -
  let ?kvs = "drop 4 txDataInfo"
  have "\<not> (\<exists>i. 2 * i + 1 < length ?kvs \<and> fieldFails (?kvs ! (2 * i)) (?kvs ! (2 * i + 1)))"
  proof
    assume "\<exists>i. 2 * i + 1 < length ?kvs \<and> fieldFails (?kvs ! (2 * i)) (?kvs ! (2 * i + 1))"
    then obtain i where i: "2 * i + 1 < length ?kvs"
      "fieldFails (?kvs ! (2 * i)) (?kvs ! (2 * i + 1))" by blast
    from i(1) have "5 + 2 * i < length txDataInfo" by simp
    moreover from i have "fieldFails (txDataInfo ! (4 + 2 * i)) (txDataInfo ! (5 + 2 * i))"
      by (simp add: add.commute)
    ultimately show False using assms(2) by blast
  qed
  then obtain proposal
    where built: "proposalFields pk (newProposal pk tx proposer) ?kvs = Some proposal"
    using proposalFields_None_iff [of pk "newProposal pk tx proposer" ?kvs] by auto
  note res = processEventProposal_built [OF assms(1) built, of props state snap]
  have keeps: "CurrentDeposit proposal = proposalDeposit pk \<and> Proposer proposal = proposer
      \<and> Hash proposal = tx_Hash tx"
    using proposalFields_keeps [OF built] by (simp add: newProposal_def)
  have nonneg: "fst (processEventProposal pk props txDataInfo state tx proposer snap) \<noteq> props
              \<longrightarrow> 0 \<le> GetBalance
                         (snd (processEventProposal pk props txDataInfo state tx proposer snap))
                         proposer"
    unfolding res by (simp add: GetBalance_def)
  from built keeps res nonneg show ?thesis by blast
qed

theorem valid_proposal_pays_total_cost_witness:
  "map CurrentDeposit
     (fst (processEventProposal examplePkg []
             (Split ''dpos:1:event:proposal:proposal_type:1'' CHR '':'')
             exampleState (proposalTx ''dpos:1:event:proposal:proposal_type:1'') 5
             exampleSnapshot)) = [20]
   \<and> GetBalance
       (snd (processEventProposal examplePkg []
               (Split ''dpos:1:event:proposal:proposal_type:1'' CHR '':'')
               exampleState (proposalTx ''dpos:1:event:proposal:proposal_type:1'') 5
               exampleSnapshot)) 5 = 30"
proof -
  let ?info = "Split ''dpos:1:event:proposal:proposal_type:1'' CHR '':''"
  let ?tx = "proposalTx ''dpos:1:event:proposal:proposal_type:1''"
  have info: "?info = [''dpos'', ''1'', ''event'', ''proposal'', ''proposal_type'', ''1'']"
    by simp
  have len: "5 < length ?info" by simp
  have ok: "\<forall>i. 5 + 2 * i < length ?info \<longrightarrow>
              \<not> fieldFails (?info ! (4 + 2 * i)) (?info ! (5 + 2 * i))"
    unfolding info by (simp add: fieldFails_def Atoi_1)
  from valid_proposal_pays_total_cost [OF len ok, of examplePkg ?tx 5 "[]" exampleState exampleSnapshot]
  obtain proposal where
    built: "proposalFields examplePkg (newProposal examplePkg ?tx 5) (drop 4 ?info) = Some proposal"
    and dep: "CurrentDeposit proposal = proposalDeposit examplePkg"
    and res: "processEventProposal examplePkg [] ?info exampleState ?tx 5 exampleSnapshot =
             (if (ProposalType proposal = 8 \<longrightarrow>
                    isSideChainExist exampleSnapshot (SCHash proposal) \<and> TargetAddress proposal \<noteq> 0)
                 \<and> totalCost examplePkg proposal \<le> GetBalance exampleState 5
              then ([] @ [proposal],
                    exampleState(5 := GetBalance exampleState 5 - totalCost examplePkg proposal))
              else ([], exampleState))"
    by blast
  have kvs: "drop 4 ?info = [''proposal_type'', ''1'']"
    unfolding info by simp
  have ty: "ProposalType proposal = 1"
    using built unfolding kvs example_fields by auto
  show ?thesis
    unfolding res using ty dep
    by (simp add: totalCost_def examplePkg_def GetBalance_def exampleState_def)
qed

subsection \<open>Confirmations\<close>

text \<open>The loop with its break appends once if the confirmer is in the queue at all.\<close>

lemma confirmLoop_eq:
  "confirmLoop queue confs refundHash tx confirmer cbn =
     (if confirmer \<in> set queue
      then (confs @ [\<lparr>Signer = confirmer, BlockNumber = cbn\<rparr>],
            refundHash(tx_Hash tx \<mapsto> \<lparr>Sender = confirmer, GasPrice = tx_GasPrice tx\<rparr>))
      else (confs, refundHash))"
  by (induction queue) auto

lemma processEventConfirm_accepts:
  assumes "confirmConditions a pk chain txDataInfo number confirmer cbn h hx"
  shows "processEventConfirm a pk confs chain txDataInfo number tx confirmer refundHash =
           (confs @ [\<lparr>Signer = confirmer, BlockNumber = cbn\<rparr>],
            refundHash(tx_Hash tx \<mapsto> \<lparr>Sender = confirmer, GasPrice = tx_GasPrice tx\<rparr>))"
  using assms
  by (simp add: confirmConditions_def processEventConfirm_def posEventConfirmNumber_def
      confirmLoop_eq not_less)

lemma processEventConfirm_rejects:
  assumes "\<not> (\<exists>cbn h hx. confirmConditions a pk chain txDataInfo number confirmer cbn h hx)"
  shows "processEventConfirm a pk confs chain txDataInfo number tx confirmer refundHash =
           (confs, refundHash)"
  using assms
  by (auto simp: confirmConditions_def processEventConfirm_def posEventConfirmNumber_def
      confirmLoop_eq not_less not_le split: option.splits)

lemma confirm_tokens:
  "Split ''dpos:1:event:confirm:3'' CHR '':'' = [''dpos'', ''1'', ''event'', ''confirm'', ''3'']"
  by simp

lemma parse_3: "BigUnmarshalText examplePkg ''3'' = Some 3"
  by (simp add: examplePkg_def parseDecimal_def digitsValue_def isDigit_def)

lemma example_region:
  "drop (extraVanity examplePkg)
     (take (length (hdr_Extra confirmedHeader3) - extraSeal examplePkg)
        (hdr_Extra confirmedHeader3)) = [1]"
  by (simp add: examplePkg_def confirmedHeader3_def sealedPayload_def)

lemma example_length:
  "extraVanity examplePkg + extraSeal examplePkg \<le> length (hdr_Extra confirmedHeader3)"
  by (simp add: examplePkg_def confirmedHeader3_def sealedPayload_def)

lemma example_conditions:
  "confirmConditions exampleAlien examplePkg confirmChain
     [''dpos'', ''1'', ''event'', ''confirm'', ''3''] 5 confirmer cbn h hx
   \<longleftrightarrow> cbn = 3 \<and> h = confirmedHeader3 \<and> hx = exampleExtra \<and> confirmer = 1"
proof -
  have age: "(5 :: 64 word) - Uint64 3 \<le> MaxSignerCount exampleAlien"
    by (simp add: Uint64_def exampleAlien_def)
  have hdr: "GetHeaderByNumber confirmChain (Uint64 3) = Some confirmedHeader3"
    by (simp add: confirmChain_def Uint64_def)
  have dec: "decodeHeaderExtra examplePkg 3 [1] = Some exampleExtra"
    by (simp add: decodeHeaderExtra_def examplePkg_def)
  have q: "set (SignerQueue exampleExtra) = {1}" by (simp add: exampleExtra_def)
  show ?thesis
  proof
    assume c: "confirmConditions exampleAlien examplePkg confirmChain
     [''dpos'', ''1'', ''event'', ''confirm'', ''3''] 5 confirmer cbn h hx"
    then have 1: "cbn = 3" by (simp add: confirmConditions_def parse_3)
    with c hdr have 2: "h = confirmedHeader3" by (simp add: confirmConditions_def)
    with c 1 have 3: "hx = exampleExtra"
      by (simp add: confirmConditions_def example_region dec)
    with c q have "confirmer = 1" by (simp add: confirmConditions_def)
    with 1 2 3 show "cbn = 3 \<and> h = confirmedHeader3 \<and> hx = exampleExtra \<and> confirmer = 1"
      by simp
  next
    assume "cbn = 3 \<and> h = confirmedHeader3 \<and> hx = exampleExtra \<and> confirmer = 1"
    then show "confirmConditions exampleAlien examplePkg confirmChain
     [''dpos'', ''1'', ''event'', ''confirm'', ''3''] 5 confirmer cbn h hx"
      by (simp add: confirmConditions_def parse_3 age hdr example_length example_region dec q)
  qed
qed

text \<open>
  C4. processEventConfirm appends the Confirmation of the confirmer for the parsed number
  and stores the pair of the confirmer and the gas price under the hash of the
  transaction exactly when the conditions hold: there is a positional number and it
  parses, the age in unsigned arithmetic does not exceed MaxSignerCount, the header at
  that number exists, its extra-data is at least vanity plus seal long and the region
  between them decodes, and the confirmer is in the decoded signer queue. In every other
  case the confirmation list and the refund map are returned unchanged.
\<close>

theorem processEventConfirm_iff:
  "(\<exists>cbn h hx.
       confirmConditions a pk chain txDataInfo number confirmer cbn h hx
     \<and> processEventConfirm a pk confs chain txDataInfo number tx confirmer refundHash =
           (confs @ [\<lparr>Signer = confirmer, BlockNumber = cbn\<rparr>],
            refundHash(tx_Hash tx \<mapsto> \<lparr>Sender = confirmer, GasPrice = tx_GasPrice tx\<rparr>)))
   \<or> (\<not> (\<exists>cbn h hx. confirmConditions a pk chain txDataInfo number confirmer cbn h hx)
     \<and> processEventConfirm a pk confs chain txDataInfo number tx confirmer refundHash =
           (confs, refundHash))"
  using processEventConfirm_accepts [of a pk chain txDataInfo number confirmer _ _ _ confs tx refundHash]
    processEventConfirm_rejects [of a pk chain txDataInfo number confirmer confs tx refundHash]
  by blast

theorem processEventConfirm_iff_witness:
  "processEventConfirm exampleAlien examplePkg [] confirmChain
     (Split ''dpos:1:event:confirm:3'' CHR '':'') 5 (confirmTx 1) 1 Map.empty
     = ([\<lparr>Signer = 1, BlockNumber = 3\<rparr>], [16 \<mapsto> \<lparr>Sender = 1, GasPrice = 2\<rparr>])
   \<and> processEventConfirm exampleAlien examplePkg [] confirmChain
     (Split ''dpos:1:event:confirm:3'' CHR '':'') 5 (confirmTx 5) 5 Map.empty
     = ([], Map.empty)"
  using processEventConfirm_iff [of exampleAlien examplePkg confirmChain
      "Split ''dpos:1:event:confirm:3'' CHR '':''" 5 1 "[]" "confirmTx 1" Map.empty]
    processEventConfirm_iff [of exampleAlien examplePkg confirmChain
      "Split ''dpos:1:event:confirm:3'' CHR '':''" 5 5 "[]" "confirmTx 5" Map.empty]
  unfolding confirm_tokens example_conditions
  by (simp add: confirmTx_def)

subsection \<open>Votes\<close>

text \<open>
  C8. For a vote command on a transaction with a non-nil recipient, processEventVote
  returns the vote list with exactly one record appended: its Voter is the sender, its
  Candidate the recipient, its Stake the voter's balance in the world state; the records
  already in the list are kept as they are, in their order.
\<close>

theorem processEventVote_appends_one:
  assumes "tx_To tx = Some to"
  shows "processEventVote votes state tx voter =
           Inr (votes @ [\<lparr>Voter = voter, Candidate = to, Stake = GetBalance state voter\<rparr>])"
  using assms by (simp add: processEventVote_def)

theorem processEventVote_appends_one_witness:
  "processEventVote
     [\<lparr>Voter = 1, Candidate = 2, Stake = 7\<rparr>]
     (\<lambda>a. if a = 5 then 50 else 0)
     \<lparr>tx_Data = ''dpos:1:event:vote'', tx_To = Some 9, tx_Value = 0, tx_Hash = 11,
      tx_GasPrice = 1, tx_Sender = Some 5\<rparr>
     5
   = Inr [\<lparr>Voter = 1, Candidate = 2, Stake = 7\<rparr>, \<lparr>Voter = 5, Candidate = 9, Stake = 50\<rparr>]"
  using processEventVote_appends_one
    [of "\<lparr>tx_Data = ''dpos:1:event:vote'', tx_To = Some 9, tx_Value = 0, tx_Hash = 11,
          tx_GasPrice = 1, tx_Sender = Some 5\<rparr>" 9
        "[\<lparr>Voter = 1, Candidate = 2, Stake = 7\<rparr>]" "\<lambda>a. if a = 5 then 50 else 0" 5]
  by (simp add: GetBalance_def)

end
